theory Spec2Isabelle
  imports Complex_Main
begin

section \<open>JavaScript values\<close>

text \<open>
  A JavaScript number is an IEEE double. The library never computes with numbers: it
  tests them for truthiness, compares them with \<open>0\<close> and \<open>200\<close> and asks whether they
  are whole. Each of these depends on the exact value only, and every finite double is a
  rational, so a finite number is modelled by its value (\<open>-0\<close> and \<open>0\<close> coincide, as
  they do for every test above).
\<close>

datatype jsnum = Fin rat | NaN | PosInf | NegInf

datatype jsval =
    JUndefined
  | JNull
  | JBool bool
  | JNum jsnum
  | JStr string
  | JObj "(string \<times> jsval) list"
  | JArr "jsval list"

text \<open>\<open>ToBoolean\<close>: what \<open>if (v)\<close> and \<open>!v\<close> test.\<close>

fun truthy :: "jsval \<Rightarrow> bool" where
  "truthy JUndefined = False"
| "truthy JNull = False"
| "truthy (JBool b) = b"
| "truthy (JNum n) = (n \<noteq> Fin 0 \<and> n \<noteq> NaN)"
| "truthy (JStr s) = (s \<noteq> [])"
| "truthy (JObj kvs) = True"
| "truthy (JArr xs) = True"

text \<open>\<open>a || b\<close>\<close>

definition js_or :: "jsval \<Rightarrow> jsval \<Rightarrow> jsval" where
  "js_or a b = (if truthy a then a else b)"

fun typeof :: "jsval \<Rightarrow> string" where
  "typeof JUndefined = ''undefined''"
| "typeof JNull = ''object''"
| "typeof (JBool b) = ''boolean''"
| "typeof (JNum n) = ''number''"
| "typeof (JStr s) = ''string''"
| "typeof (JObj kvs) = ''object''"
| "typeof (JArr xs) = ''object''"

text \<open>Reading a property of \<open>undefined\<close> or \<open>null\<close> throws a \<open>TypeError\<close>.\<close>

fun nullish :: "jsval \<Rightarrow> bool" where
  "nullish JUndefined = True"
| "nullish JNull = True"
| "nullish v = False"

text \<open>
  \<open>v.k\<close> for a value that is not nullish and a key \<open>k\<close> that names data (the library
  reads \<open>orderCode\<close> and \<open>paymentMethod\<close>): an object yields its entry, anything else
  has no such property.
\<close>

fun get_prop :: "jsval \<Rightarrow> string \<Rightarrow> jsval" where
  "get_prop (JObj kvs) k = (case map_of kvs k of Some v \<Rightarrow> v | None \<Rightarrow> JUndefined)"
| "get_prop v k = JUndefined"

text \<open>\<open>v[0]\<close> for a value that is not nullish.\<close>

fun index0 :: "jsval \<Rightarrow> jsval" where
  "index0 (JStr s) = (case s of [] \<Rightarrow> JUndefined | c # cs \<Rightarrow> JStr [c])"
| "index0 (JArr xs) = (case xs of [] \<Rightarrow> JUndefined | x # ys \<Rightarrow> x)"
| "index0 (JObj kvs) = (case map_of kvs ''0'' of Some v \<Rightarrow> v | None \<Rightarrow> JUndefined)"
| "index0 v = JUndefined"

text \<open>
  A value that is a number or \<open>undefined\<close> (\<open>None\<close>), compared with zero: \<open>undefined\<close>
  converts to \<open>NaN\<close>, and every comparison with \<open>NaN\<close> is false.
\<close>

fun le_zero :: "jsnum option \<Rightarrow> bool" where
  "le_zero None = False"
| "le_zero (Some (Fin r)) = (r \<le> 0)"
| "le_zero (Some NaN) = False"
| "le_zero (Some PosInf) = False"
| "le_zero (Some NegInf) = True"

fun gt_zero :: "jsnum option \<Rightarrow> bool" where
  "gt_zero None = False"
| "gt_zero (Some (Fin r)) = (0 < r)"
| "gt_zero (Some NaN) = False"
| "gt_zero (Some PosInf) = True"
| "gt_zero (Some NegInf) = False"

fun num_val :: "jsnum option \<Rightarrow> jsval" where
  "num_val None = JUndefined"
| "num_val (Some n) = JNum n"

text \<open>
  \<open>parseFloat\<close> converts its argument to a string and reads a decimal literal back. The
  text of a number reads back as that number, and \<open>"undefined"\<close> reads as \<open>NaN\<close>.
\<close>

fun parseFloat :: "jsnum option \<Rightarrow> jsnum" where
  "parseFloat None = NaN"
| "parseFloat (Some n) = n"

fun Number_isInteger :: "jsnum \<Rightarrow> bool" where
  "Number_isInteger (Fin r) = (of_int \<lfloor>r\<rfloor> = r)"
| "Number_isInteger n = False"

text \<open>\<open>isFloat\<close>, lines 11 to 13.\<close>

definition isFloat :: "jsnum option \<Rightarrow> bool" where
  "isFloat number = Number_isInteger (parseFloat number)"


section \<open>The transport's reply\<close>

text \<open>
  The response object the HTTP library hands to the callback; the library reads these
  three properties of it. A description, where there is one, is a text.
\<close>

record incoming =
  statusCode :: jsval
  description :: "string option"
  customCode :: jsval

text \<open>
  The callback's \<open>response\<close> argument: the response object, or one of the values the
  code tests for (\<open>null\<close>, \<open>false\<close>), or \<open>undefined\<close>.
\<close>

datatype response = RUndefined | RNull | RFalse | RObj incoming

record reply =
  err :: jsval
  response :: response
  body :: jsval

text \<open>\<open>response.statusCode\<close> and its siblings, for a response that is not nullish.\<close>

fun status :: "response \<Rightarrow> jsval" where
  "status (RObj r) = statusCode r"
| "status r = JUndefined"

fun response_description :: "response \<Rightarrow> string option" where
  "response_description (RObj r) = incoming.description r"
| "response_description r = None"

fun response_customCode :: "response \<Rightarrow> jsval" where
  "response_customCode (RObj r) = incoming.customCode r"
| "response_customCode r = JUndefined"


section \<open>Errors\<close>

text \<open>
  Modelled from the spec: the error type and its catalog live in
  \<open>worldpayException.js\<close>, which is not among the sources. The error value carries a
  message and four optional codes, stored as given. The catalog
  \<open>WorldpayException.errors\<close> is a fixed table of templates keyed by short symbolic
  names, with the per-field templates under \<open>orderInput\<close> and \<open>refund\<close>; the texts are
  not known, so the catalog is a parameter of every operation.
\<close>

record WorldpayException =
  message :: string
  code :: jsval
  httpStatusCode :: jsval
  description :: jsval
  customCode :: jsval

record catalog =
  errors :: "string \<Rightarrow> string"
  orderInput :: "string \<Rightarrow> string"
  refund :: "string \<Rightarrow> string"

text \<open>
  Modelled from the spec: a table keyed by symbolic names has no property \<open>length\<close>, so
  \<open>WorldpayException.errors.length\<close> is \<open>undefined\<close>, and no \<open>join\<close> either.
\<close>

definition errors_length :: "jsnum option" where
  "errors_length = None"

text \<open>
  What \<open>onError\<close> receives as its \<open>message\<close>: nothing, a text of the catalog, or the
  \<open>response\<close> (line 137).
\<close>

datatype message = Omitted | Text string | Resp response

fun message_truthy :: "message \<Rightarrow> bool" where
  "message_truthy Omitted = False"
| "message_truthy (Text s) = (s \<noteq> [])"
| "message_truthy (Resp (RObj r)) = True"
| "message_truthy (Resp r) = False"

text \<open>The string conversion that \<open>+\<close> applies to the message.\<close>

fun message_string :: "message \<Rightarrow> string" where
  "message_string Omitted = ''undefined''"
| "message_string (Text s) = s"
| "message_string (Resp RUndefined) = ''undefined''"
| "message_string (Resp RNull) = ''null''"
| "message_string (Resp RFalse) = ''false''"
| "message_string (Resp (RObj r)) = ''[object Object]''"

text \<open>\<open>Worldpay.onError\<close>, lines 283 to 289.\<close>

definition onError ::
  "catalog \<Rightarrow> string \<Rightarrow> message \<Rightarrow> jsval \<Rightarrow> jsval \<Rightarrow> jsval \<Rightarrow> jsval \<Rightarrow> WorldpayException" where
  "onError cat error msg code' httpStatusCode' description' customCode' =
     (let message' = (if message_truthy msg then '' - '' @ message_string msg
                      else message_string msg)
      in \<lparr>message = errors cat error @ message', code = code',
          httpStatusCode = httpStatusCode', description = description',
          customCode = customCode'\<rparr>)"

text \<open>A call of \<open>onError\<close> with the error name alone, and with name and message.\<close>

abbreviation onError1 :: "catalog \<Rightarrow> string \<Rightarrow> WorldpayException" where
  "onError1 cat error \<equiv> onError cat error Omitted JUndefined JUndefined JUndefined JUndefined"

abbreviation (input) onError2 :: "catalog \<Rightarrow> string \<Rightarrow> message \<Rightarrow> WorldpayException" where
  "onError2 cat error msg \<equiv> onError cat error msg JUndefined JUndefined JUndefined JUndefined"

datatype js_error = TypeError


section \<open>The client\<close>

record client =
  serviceKey :: jsval
  timeout :: jsval
  disableSsl :: bool
  endpoint :: string

text \<open>The constructor, lines 20 to 32: it throws (\<open>Inl\<close>) or yields the client.\<close>

definition Worldpay :: "catalog \<Rightarrow> jsval \<Rightarrow> jsval \<Rightarrow> WorldpayException + client" where
  "Worldpay cat serviceKey' timeout' =
     (if \<not> truthy serviceKey' then Inl (onError1 cat ''key'')
      else Inr \<lparr>serviceKey = serviceKey', timeout = js_or timeout' (JNum (Fin 10)),
                disableSsl = False, endpoint = ''https://api.worldpay.com/v1/''\<rparr>)"

definition disableSSLCheck :: "client \<Rightarrow> jsval \<Rightarrow> client" where
  "disableSSLCheck this disable = this\<lparr>disableSsl := \<not> truthy disable\<rparr>"

definition setTimeout :: "client \<Rightarrow> jsval \<Rightarrow> client" where
  "setTimeout this timeout' = this\<lparr>timeout := js_or timeout' (JNum (Fin 3))\<rparr>"


section \<open>Order input\<close>

text \<open>
  The order object. A property that is not there reads as \<open>undefined\<close>. The amount is a
  number or is not there.
\<close>

record order =
  token :: jsval
  orderDescription :: jsval
  amount :: "jsnum option"
  currencyCode :: jsval
  name :: jsval
  billingAddress :: jsval
  customerOrderCode :: jsval
  customerIdentifiers :: jsval
  orderType :: jsval

text \<open>The object \<open>{}\<close>.\<close>

definition empty_order :: order where
  "empty_order = \<lparr>token = JUndefined, orderDescription = JUndefined, amount = None,
     currencyCode = JUndefined, name = JUndefined, billingAddress = JUndefined,
     customerOrderCode = JUndefined, customerIdentifiers = JUndefined,
     orderType = JUndefined\<rparr>"

text \<open>The condition of line 70.\<close>

definition amount_invalid :: "jsnum option \<Rightarrow> bool" where
  "amount_invalid a = (\<not> truthy (num_val a) \<or> le_zero a \<or> isFloat a)"

text \<open>The local array \<open>errors\<close> after the six checks of lines 62 to 84.\<close>

definition orderInput_errors :: "catalog \<Rightarrow> order \<Rightarrow> string list" where
  "orderInput_errors cat order' =
     (if \<not> truthy (token order') then [orderInput cat ''token''] else []) @
     (if \<not> truthy (orderDescription order') then [orderInput cat ''orderDescription''] else []) @
     (if amount_invalid (amount order') then [orderInput cat ''amount''] else []) @
     (if \<not> truthy (currencyCode order') then [orderInput cat ''currencyCode''] else []) @
     (if \<not> truthy (name order') then [orderInput cat ''name''] else []) @
     (if \<not> truthy (billingAddress order') then [orderInput cat ''billingAddress''] else [])"

text \<open>
  \<open>checkOrderInput\<close>, lines 56 to 91: it returns an error (\<open>Some\<close>) or \<open>false\<close>
  (\<open>None\<close>). The test of line 86 reads the length of the catalog, not of the local
  array; line 87 would call the catalog's \<open>join\<close>, which a table of templates does not
  have.
\<close>

definition checkOrderInput ::
  "catalog \<Rightarrow> order option \<Rightarrow> js_error + WorldpayException option" where
  "checkOrderInput cat order' =
     (case order' of
        None \<Rightarrow> Inr (Some (onError1 cat ''ip''))
      | Some ord \<Rightarrow>
          (let errors' = orderInput_errors cat ord
           in if gt_zero errors_length then Inl TypeError else Inr None))"


section \<open>Sending a request\<close>

text \<open>
  The options of \<open>sendRequest\<close>, with every key its callers set; \<open>http_method\<close> is the
  key \<open>method\<close>, here and in the two records that follow.
\<close>

record options =
  action :: string
  json :: jsval
  expectResponse :: jsval
  http_method :: jsval
  expectedResult :: jsval

text \<open>The options of the HTTP library that the code sets.\<close>

record request =
  url :: string
  http_method :: jsval
  json :: jsval
  timeout :: jsval
  Authorization :: jsval
  strictSSL :: bool

text \<open>
  What an operation does: it calls back with an error of the library, with the
  transport's error, or with a payload; or a \<open>TypeError\<close> is thrown.
\<close>

datatype outcome =
    Failed WorldpayException
  | TransportError jsval
  | Succeeded jsval
  | Thrown js_error

text \<open>
  The inner \<open>callback\<close> of \<open>sendRequest\<close>, lines 121 to 156, test by test. Reading
  \<open>response.statusCode\<close> throws when the response is \<open>undefined\<close> or \<open>null\<close>. The
  tests of lines 131 and 136 between them take every status other than 200, so the test
  of line 140 never holds where it is reached.
\<close>

definition callback :: "catalog \<Rightarrow> options \<Rightarrow> reply \<Rightarrow> outcome" where
  "callback cat opts rp =
     (if truthy (err rp) then TransportError (err rp)
      else if truthy (expectResponse opts) \<and> (response rp = RNull \<or> response rp = RFalse)
        then Failed (onError cat ''uanv'' (Text (errors cat ''json'')) (JNum (Fin 503))
                       JUndefined JUndefined JUndefined)
      else if response rp = RUndefined \<or> response rp = RNull then Thrown TypeError
      else if truthy (expectResponse opts) \<and> status (response rp) \<noteq> JNum (Fin 200)
        then Failed (onError cat ''uanv'' (Text (errors cat ''json'')) (JNum (Fin 503))
                       JUndefined JUndefined JUndefined)
      else if \<not> truthy (expectResponse opts) \<and> status (response rp) \<noteq> JNum (Fin 200)
        then Failed (onError cat ''apierror'' (Resp (response rp)) (status (response rp))
                       JUndefined JUndefined JUndefined)
      else if status (response rp) \<noteq> JNum (Fin 200)
        then Failed (onError cat ''apierror''
                       (case response_description (response rp) of
                          None \<Rightarrow> Omitted | Some d \<Rightarrow> Text d)
                       (status (response rp)) (status (response rp))
                       (case response_description (response rp) of
                          None \<Rightarrow> JUndefined | Some d \<Rightarrow> JStr d)
                       (response_customCode (response rp)))
      else Succeeded
             (if \<not> truthy (expectResponse opts) \<and> status (response rp) = JNum (Fin 200)
              then JBool True else body rp))"

text \<open>The object handed to the HTTP library, lines 110 to 119.\<close>

definition build_request :: "client \<Rightarrow> options \<Rightarrow> request" where
  "build_request this opts =
     \<lparr>url = endpoint this @ action opts,
      http_method = js_or (options.http_method opts) (JStr ''POST''),
      json = js_or (options.json opts) (JBool True),
      timeout = client.timeout this,
      Authorization = serviceKey this,
      strictSSL = \<not> disableSsl this\<rparr>"

text \<open>
  \<open>sendRequest\<close>, lines 103 to 157, over a transport \<open>net\<close> that answers a request with
  the arguments of the callback. The result is the list of requests issued and the
  outcome. Line 106 reads \<open>serviceKey[0]\<close> only when \<open>disableSsl\<close> is set. Every caller
  passes its options, with a text as \<open>action\<close>.
\<close>

definition sendRequest ::
  "(request \<Rightarrow> reply) \<Rightarrow> catalog \<Rightarrow> client \<Rightarrow> options \<Rightarrow> request list \<times> outcome" where
  "sendRequest net cat this opts =
     (if disableSsl this \<and> nullish (serviceKey this) then ([], Thrown TypeError)
      else if disableSsl this \<and> index0 (serviceKey this) \<noteq> JStr ''T''
        then ([], Failed (onError1 cat ''ssl''))
      else ([build_request this opts],
            callback cat opts (net (build_request this opts))))"


section \<open>The operations\<close>

text \<open>
  Modelled from the spec: \<open>_.merge(defaults, order)\<close> of the external library lodash,
  which lays the caller's fields over the defaults; a field the caller leaves
  \<open>undefined\<close> keeps its default.
\<close>

definition merge_defaults :: "order \<Rightarrow> order" where
  "merge_defaults ord = ord
     \<lparr>orderType := (if orderType ord = JUndefined then JStr ''ECOM'' else orderType ord),
      customerIdentifiers :=
        (if customerIdentifiers ord = JUndefined then JNull else customerIdentifiers ord),
      billingAddress :=
        (if billingAddress ord = JUndefined then JNull else billingAddress ord)\<rparr>"

text \<open>The wire payload of lines 182 to 192.\<close>

definition order_json :: "order \<Rightarrow> jsval" where
  "order_json ord = JObj
     [(''token'', token ord),
      (''orderDescription'', orderDescription ord),
      (''amount'', num_val (amount ord)),
      (''currencyCode'', currencyCode ord),
      (''name'', name ord),
      (''orderType'', orderType ord),
      (''billingAddress'', billingAddress ord),
      (''customerOrderCode'', customerOrderCode ord),
      (''customerIdentifiers'', customerIdentifiers ord)]"

text \<open>
  The callback that \<open>createOrder\<close> and \<open>getStoredCardDetails\<close> give to \<open>sendRequest\<close>
  (lines 195 to 206 and 240 to 250): \<open>key\<close> is the property required of the payload,
  \<open>whole\<close> says whether the whole payload or that property is passed on.
\<close>

definition require_prop :: "catalog \<Rightarrow> string \<Rightarrow> bool \<Rightarrow> outcome \<Rightarrow> outcome" where
  "require_prop cat key whole out =
     (case out of
        Succeeded response' \<Rightarrow>
          (if nullish response' then Thrown TypeError
           else if \<not> truthy (get_prop response' key) then Failed (onError1 cat ''apierror'')
           else Succeeded (if whole then response' else get_prop response' key))
      | other \<Rightarrow> other)"

text \<open>The options of line 193, of line 219 and of lines 233 to 238.\<close>

definition order_options :: "order \<Rightarrow> options" where
  "order_options ord =
     \<lparr>action = ''orders'', options.json = order_json (merge_defaults ord),
      expectResponse = JUndefined, options.http_method = JUndefined, expectedResult = JBool True\<rparr>"

definition refund_options :: "string \<Rightarrow> options" where
  "refund_options orderCode =
     \<lparr>action = ''orders/'' @ orderCode @ ''/refund'', options.json = JUndefined,
      expectResponse = JUndefined, options.http_method = JUndefined, expectedResult = JUndefined\<rparr>"

definition card_options :: "string \<Rightarrow> options" where
  "card_options token' =
     \<lparr>action = ''tokens/'' @ token', options.json = JBool False,
      expectResponse = JUndefined, options.http_method = JStr ''GET'', expectedResult = JBool True\<rparr>"

text \<open>\<open>createOrder\<close>, lines 166 to 207.\<close>

definition createOrder ::
  "(request \<Rightarrow> reply) \<Rightarrow> catalog \<Rightarrow> client \<Rightarrow> order option \<Rightarrow> request list \<times> outcome" where
  "createOrder net cat this order' =
     (let ord = (case order' of None \<Rightarrow> empty_order | Some given \<Rightarrow> given)
      in case checkOrderInput cat (Some ord) of
           Inl e \<Rightarrow> ([], Thrown e)
         | Inr (Some orderValidationError) \<Rightarrow> ([], Failed orderValidationError)
         | Inr None \<Rightarrow>
             (let sent = sendRequest net cat this (order_options ord)
              in (fst sent, require_prop cat ''orderCode'' True (snd sent))))"

text \<open>
  \<open>refundOrder\<close>, lines 214 to 220. Past the test of line 215 the order code is a
  string, and \<open>+\<close> joins it to the path.
\<close>

definition refundOrder ::
  "(request \<Rightarrow> reply) \<Rightarrow> catalog \<Rightarrow> client \<Rightarrow> jsval \<Rightarrow> request list \<times> outcome" where
  "refundOrder net cat this orderCode =
     (if \<not> truthy orderCode \<or> typeof orderCode \<noteq> ''string''
      then ([], Failed (onError2 cat ''ip'' (Text (refund cat ''ordercode''))))
      else case orderCode of
             JStr s \<Rightarrow> sendRequest net cat this (refund_options s)
           | other \<Rightarrow> ([], Thrown TypeError))"

text \<open>\<open>getStoredCardDetails\<close>, lines 228 to 251.\<close>

definition getStoredCardDetails ::
  "(request \<Rightarrow> reply) \<Rightarrow> catalog \<Rightarrow> client \<Rightarrow> jsval \<Rightarrow> request list \<times> outcome" where
  "getStoredCardDetails net cat this token' =
     (if \<not> truthy token' \<or> typeof token' \<noteq> ''string''
      then ([], Failed (onError2 cat ''ip'' (Text (orderInput cat ''token''))))
      else case token' of
             JStr s \<Rightarrow>
               (let sent = sendRequest net cat this (card_options s)
                in (fst sent, require_prop cat ''paymentMethod'' False (snd sent)))
           | other \<Rightarrow> ([], Thrown TypeError))"

text \<open>
  The inbound request of the web framework, and \<open>processWebhook\<close>, lines 260 to 272:
  what the handler passes to \<open>cb\<close>, the second parameter; the first, \<open>token\<close>, is not
  read.
\<close>

record inbound =
  http_method :: jsval
  body :: jsval

definition processWebhook :: "catalog \<Rightarrow> jsval \<Rightarrow> inbound \<Rightarrow> outcome" where
  "processWebhook cat token' req =
     (if inbound.http_method req \<noteq> JStr ''POST'' then Failed (onError1 cat ''notificationPost'')
      else if \<not> truthy (inbound.body req) then Failed (onError1 cat ''notificationUnknown'')
      else Succeeded (inbound.body req))"

text \<open>A catalog for the examples: every template is its own key.\<close>

definition key_catalog :: catalog where
  "key_catalog = \<lparr>errors = (\<lambda>k. k), orderInput = (\<lambda>k. k), refund = (\<lambda>k. k)\<rparr>"

text \<open>
  Inputs for the examples: a client as the constructor builds it for a live and for a
  test credential, a transport that answers every request with a given status and body
  and no error, and an order with all six required fields.
\<close>

definition live_client :: client where
  "live_client = \<lparr>serviceKey = JStr ''L_live_key'', timeout = JNum (Fin 10),
     disableSsl = False, endpoint = ''https://api.worldpay.com/v1/''\<rparr>"

definition test_client :: client where
  "test_client = \<lparr>serviceKey = JStr ''T_test_key'', timeout = JNum (Fin 10),
     disableSsl = False, endpoint = ''https://api.worldpay.com/v1/''\<rparr>"

definition response_with :: "jsval \<Rightarrow> response" where
  "response_with sc = RObj \<lparr>statusCode = sc, incoming.description = None,
     incoming.customCode = JUndefined\<rparr>"

definition answer :: "jsval \<Rightarrow> jsval \<Rightarrow> request \<Rightarrow> reply" where
  "answer sc b req = \<lparr>err = JNull, response = response_with sc, reply.body = b\<rparr>"

definition valid_order :: order where
  "valid_order = \<lparr>token = JStr ''tok_1'', orderDescription = JStr ''Two books'',
     amount = Some (Fin 100), currencyCode = JStr ''GBP'', name = JStr ''Ann Lee'',
     billingAddress = JObj [(''city'', JStr ''London'')],
     customerOrderCode = JUndefined, customerIdentifiers = JUndefined,
     orderType = JUndefined\<rparr>"


section \<open>The security gate and the callback\<close>

text \<open>
  The gate of line 106 lets a request through when \<open>disableSsl\<close> is unset or the
  credential starts with \<open>T\<close>, and refuses it otherwise.
\<close>

lemma sendRequest_passes:
  "\<not> disableSsl this \<or> index0 (serviceKey this) = JStr ''T'' \<Longrightarrow>
   sendRequest net cat this opts =
     ([build_request this opts], callback cat opts (net (build_request this opts)))"
  by (cases "serviceKey this") (auto simp: sendRequest_def)

lemma sendRequest_refused:
  "disableSsl this \<Longrightarrow> \<not> nullish (serviceKey this) \<Longrightarrow>
   index0 (serviceKey this) \<noteq> JStr ''T'' \<Longrightarrow>
   sendRequest net cat this opts = ([], Failed (onError1 cat ''ssl''))"
  by (simp add: sendRequest_def)

text \<open>
  No caller of \<open>sendRequest\<close> sets \<open>expectResponse\<close>: \<open>createOrder\<close> and
  \<open>getStoredCardDetails\<close> set \<open>expectedResult\<close>, which \<open>sendRequest\<close> never reads.
  Without it, the only payload of a success is \<open>true\<close>.
\<close>

lemma callback_unexpected_200:
  "\<not> truthy (err rp) \<Longrightarrow> \<not> truthy (expectResponse opts) \<Longrightarrow>
   status (response rp) = JNum (Fin 200) \<Longrightarrow>
   callback cat opts rp = Succeeded (JBool True)"
  by (cases "response rp") (auto simp: callback_def)

lemma callback_unexpected_payload:
  "\<not> truthy (expectResponse opts) \<Longrightarrow> callback cat opts rp = Succeeded v \<Longrightarrow> v = JBool True"
  by (auto simp: callback_def split: if_splits)

text \<open>An \<open>undefined\<close> response with no transport error ends in a \<open>TypeError\<close>.\<close>

lemma callback_undefined_response:
  "\<not> truthy (err rp) \<Longrightarrow> response rp = RUndefined \<Longrightarrow> callback cat opts rp = Thrown TypeError"
  by (simp add: callback_def)

lemma sendRequest_unexpected_payload:
  "\<not> truthy (expectResponse opts) \<Longrightarrow> snd (sendRequest net cat this opts) = Succeeded v \<Longrightarrow>
   v = JBool True"
  by (auto simp: sendRequest_def split: if_splits dest: callback_unexpected_payload)

lemma require_prop_true:
  "require_prop cat key whole (Succeeded (JBool True)) = Failed (onError1 cat ''apierror'')"
  by (simp add: require_prop_def)

lemma require_prop_success:
  "require_prop cat key whole out = Succeeded v \<Longrightarrow>
   \<exists>w. out = Succeeded w \<and> w \<noteq> JBool True"
  by (auto simp: require_prop_def split: outcome.splits if_splits)

lemma checkOrderInput_false: "checkOrderInput cat (Some ord) = Inr None"
  by (simp add: checkOrderInput_def errors_length_def)

lemma sendRequest_after_disableSSLCheck_true:
  "sendRequest net cat (disableSSLCheck this (JBool True)) opts =
     ([build_request (disableSSLCheck this (JBool True)) opts],
      callback cat opts (net (build_request (disableSSLCheck this (JBool True)) opts)))"
  by (rule sendRequest_passes) (simp add: disableSSLCheck_def)


text \<open>
  Line 86 never holds, so \<open>checkOrderInput\<close> returns \<open>false\<close> for every order and
  \<open>createOrder\<close> always goes on to \<open>sendRequest\<close>. Neither \<open>createOrder\<close> nor
  \<open>getStoredCardDetails\<close> ever calls back with a payload: what they get from
  \<open>sendRequest\<close> is \<open>true\<close>, which has neither \<open>orderCode\<close> nor \<open>paymentMethod\<close>.
\<close>

lemma createOrder_unfold:
  "createOrder net cat this order' =
     (let ord = (case order' of None \<Rightarrow> empty_order | Some given \<Rightarrow> given);
          sent = sendRequest net cat this (order_options ord)
      in (fst sent, require_prop cat ''orderCode'' True (snd sent)))"
  by (simp add: createOrder_def checkOrderInput_false Let_def)

lemma createOrder_never_succeeds: "snd (createOrder net cat this order') \<noteq> Succeeded v"
proof
  assume a: "snd (createOrder net cat this order') = Succeeded v"
  define ord where "ord = (case order' of None \<Rightarrow> empty_order | Some given \<Rightarrow> given)"
  from a have "require_prop cat ''orderCode'' True
      (snd (sendRequest net cat this (order_options ord))) = Succeeded v"
    by (simp add: createOrder_unfold ord_def Let_def)
  then obtain w where "snd (sendRequest net cat this (order_options ord)) = Succeeded w"
    and "w \<noteq> JBool True"
    using require_prop_success by blast
  moreover have "\<not> truthy (expectResponse (order_options ord))"
    by (simp add: order_options_def)
  ultimately show False
    using sendRequest_unexpected_payload by blast
qed

lemma getStoredCardDetails_never_succeeds:
  "snd (getStoredCardDetails net cat this token') \<noteq> Succeeded v"
proof
  assume a: "snd (getStoredCardDetails net cat this token') = Succeeded v"
  then obtain s where s: "token' = JStr s" "s \<noteq> []"
    by (cases token') (auto simp: getStoredCardDetails_def split: if_splits)
  with a have "require_prop cat ''paymentMethod'' False
      (snd (sendRequest net cat this (card_options s))) = Succeeded v"
    by (simp add: getStoredCardDetails_def Let_def)
  then obtain w where "snd (sendRequest net cat this (card_options s)) = Succeeded w"
    and "w \<noteq> JBool True"
    using require_prop_success by blast
  moreover have "\<not> truthy (expectResponse (card_options s))"
    by (simp add: card_options_def)
  ultimately show False
    using sendRequest_unexpected_payload by blast
qed

text \<open>
  The condition of line 70 on a finite amount: it holds when the amount is not positive
  or is a whole number, since \<open>isFloat\<close> answers whether its argument is an integer.
\<close>

lemma amount_invalid_Fin: "amount_invalid (Some (Fin r)) = (r \<le> 0 \<or> r \<in> \<int>)"
proof -
  have "(of_int \<lfloor>r\<rfloor> = r) = (r \<in> \<int>)"
    by (metis Ints_of_int floor_of_int Ints_cases)
  then show ?thesis
    by (auto simp: amount_invalid_def isFloat_def)
qed


section \<open>The claims\<close>

text \<open>
  Claim C1: on a client whose credential does not start with \<open>T\<close> and on which TLS
  verification has been disabled by the setter called with \<open>true\<close>, every operation
  fails with the error \<open>ssl\<close> before any request is issued.

  The code does not do this. \<open>disableSSLCheck(true)\<close> stores the negation of its
  argument, so \<open>disableSsl\<close> is false afterwards, whatever the credential: the gate of
  line 106 is not taken, \<open>sendRequest\<close> issues its request, with \<open>strictSSL\<close> on, and
  \<open>refundOrder\<close> with a non-empty order code issues the refund request.
\<close>

theorem disableSSLCheck_true_no_gate:
  "\<not> disableSsl (disableSSLCheck this (JBool True)) \<and>
   fst (sendRequest net cat (disableSSLCheck this (JBool True)) opts) =
     [build_request (disableSSLCheck this (JBool True)) opts] \<and>
   strictSSL (build_request (disableSSLCheck this (JBool True)) opts) \<and>
   (s \<noteq> [] \<longrightarrow>
      fst (refundOrder net cat (disableSSLCheck this (JBool True)) (JStr s)) =
        [build_request (disableSSLCheck this (JBool True)) (refund_options s)])"
  by (simp add: sendRequest_after_disableSSLCheck_true refundOrder_def)
     (simp add: disableSSLCheck_def build_request_def)

text \<open>
  The live client, after \<open>disableSSLCheck(true)\<close>, refunds order \<open>abc\<close>: the request
  goes out and the refund succeeds.
\<close>

theorem disableSSLCheck_true_no_gate_witness:
  "Worldpay key_catalog (JStr ''L_live_key'') JUndefined = Inr live_client \<and>
   index0 (serviceKey live_client) \<noteq> JStr ''T'' \<and>
   refundOrder (answer (JNum (Fin 200)) (JObj [])) key_catalog
       (disableSSLCheck live_client (JBool True)) (JStr ''abc'') =
     ([\<lparr>url = ''https://api.worldpay.com/v1/orders/abc/refund'', http_method = JStr ''POST'',
        json = JBool True, timeout = JNum (Fin 10), Authorization = JStr ''L_live_key'',
        strictSSL = True\<rparr>], Succeeded (JBool True))"
  using disableSSLCheck_true_no_gate
    [of live_client "answer (JNum (Fin 200)) (JObj [])" key_catalog "refund_options ''abc''" "''abc''"]
  by (simp add: Worldpay_def live_client_def js_or_def refundOrder_def sendRequest_def
      disableSSLCheck_def build_request_def refund_options_def callback_def answer_def
      response_with_def)


text \<open>
  Claim C2: for a valid order, when the transport completes with status 200 and a body
  that contains \<open>orderCode\<close>, \<open>createOrder\<close> succeeds with the response object; when the
  body lacks \<open>orderCode\<close>, it fails with the error \<open>apierror\<close>.

  The code does the second and never the first. \<open>createOrder\<close> asks for a response under
  the key \<open>expectedResult\<close>, and \<open>sendRequest\<close> reads \<open>expectResponse\<close>: on status 200
  the body is replaced by \<open>true\<close> (line 152), \<open>true.orderCode\<close> is \<open>undefined\<close>, and
  the order fails with \<open>apierror\<close> whatever the body holds. No input makes
  \<open>createOrder\<close> call back with a payload.
\<close>

theorem createOrder_200_is_apierror:
  assumes "\<not> disableSsl this \<or> index0 (serviceKey this) = JStr ''T''"
    and "rp = net (build_request this (order_options ord))"
    and "\<not> truthy (err rp)"
    and "status (response rp) = JNum (Fin 200)"
  shows "createOrder net cat this (Some ord) =
           ([build_request this (order_options ord)], Failed (onError1 cat ''apierror'')) \<and>
         snd (createOrder net cat this order') \<noteq> Succeeded v"
proof -
  have "callback cat (order_options ord) rp = Succeeded (JBool True)"
    using assms(3,4) by (intro callback_unexpected_200) (simp_all add: order_options_def)
  then have "createOrder net cat this (Some ord) =
           ([build_request this (order_options ord)], Failed (onError1 cat ''apierror''))"
    using assms(1,2)
    by (simp add: createOrder_unfold sendRequest_passes require_prop_true)
  then show ?thesis
    using createOrder_never_succeeds by blast
qed

text \<open>
  The valid order, answered with status 200 and the body \<open>{orderCode: "abc"}\<close>.
\<close>

theorem createOrder_200_is_apierror_witness:
  "truthy (get_prop (JObj [(''orderCode'', JStr ''abc'')]) ''orderCode'') \<and>
   createOrder (answer (JNum (Fin 200)) (JObj [(''orderCode'', JStr ''abc'')]))
       key_catalog test_client (Some valid_order) =
     ([build_request test_client (order_options valid_order)],
      Failed \<lparr>message = ''apierrorundefined'', code = JUndefined,
        httpStatusCode = JUndefined, description = JUndefined, customCode = JUndefined\<rparr>)"
  using createOrder_200_is_apierror
    [of test_client
        "answer (JNum (Fin 200)) (JObj [(''orderCode'', JStr ''abc'')])
           (build_request test_client (order_options valid_order))"
        "answer (JNum (Fin 200)) (JObj [(''orderCode'', JStr ''abc'')])"
        valid_order key_catalog]
  by (simp add: test_client_def answer_def response_with_def onError_def key_catalog_def)

text \<open>
  Claim C3: an order that misses one or more of the six required fields fails
  validation with the error \<open>ip\<close>, whose message lists every failing field.

  The code collects the failing fields in its local array, all six for the order \<open>{}\<close>,
  and then tests the length of the catalog instead (line 86): \<open>checkOrderInput\<close> returns
  \<open>false\<close> for every order, and \<open>createOrder\<close> sends the request.
\<close>

theorem checkOrderInput_never_rejects:
  "checkOrderInput cat (Some ord) = Inr None \<and>
   orderInput_errors cat empty_order =
     [orderInput cat ''token'', orderInput cat ''orderDescription'', orderInput cat ''amount'',
      orderInput cat ''currencyCode'', orderInput cat ''name'',
      orderInput cat ''billingAddress''] \<and>
   (\<not> disableSsl this \<or> index0 (serviceKey this) = JStr ''T'' \<longrightarrow>
      fst (createOrder net cat this (Some ord)) = [build_request this (order_options ord)])"
  by (simp add: checkOrderInput_false createOrder_unfold sendRequest_passes)
     (simp add: orderInput_errors_def empty_order_def amount_invalid_def)

text \<open>
  The order \<open>{}\<close> on the test client: six fields collected, no error, one request.
\<close>

theorem checkOrderInput_never_rejects_witness:
  "checkOrderInput key_catalog (Some empty_order) = Inr None \<and>
   orderInput_errors key_catalog empty_order =
     [''token'', ''orderDescription'', ''amount'', ''currencyCode'', ''name'',
      ''billingAddress''] \<and>
   fst (createOrder (answer (JNum (Fin 200)) (JObj [])) key_catalog test_client
          (Some empty_order)) =
     [\<lparr>url = ''https://api.worldpay.com/v1/orders'', http_method = JStr ''POST'',
       json = JObj [(''token'', JUndefined), (''orderDescription'', JUndefined),
         (''amount'', JUndefined), (''currencyCode'', JUndefined), (''name'', JUndefined),
         (''orderType'', JStr ''ECOM''), (''billingAddress'', JNull),
         (''customerOrderCode'', JUndefined), (''customerIdentifiers'', JNull)],
       timeout = JNum (Fin 10), Authorization = JStr ''T_test_key'', strictSSL = True\<rparr>]"
  using checkOrderInput_never_rejects
    [of key_catalog empty_order test_client "answer (JNum (Fin 200)) (JObj [])"]
  by (simp add: key_catalog_def test_client_def build_request_def order_options_def
      order_json_def merge_defaults_def empty_order_def js_or_def)

text \<open>
  Claim C4: amount 100 is accepted, and amounts 0, -5 and 10.5 are rejected: an order
  is rejected exactly when its amount is absent, not strictly positive, or not whole.

  The code's test of the amount (line 70) holds for 100, 0, -5 and an absent amount, and
  does not hold for 10.5: on a finite amount it holds exactly when the amount is not
  positive or is whole. Whatever the amount, \<open>checkOrderInput\<close> returns \<open>false\<close>.
\<close>

theorem amount_check_flags_whole_numbers:
  "amount_invalid (Some (Fin 100)) \<and>
   \<not> amount_invalid (Some (Fin 10.5)) \<and>
   amount_invalid (Some (Fin 0)) \<and>
   amount_invalid (Some (Fin (- 5))) \<and>
   amount_invalid None \<and>
   amount_invalid (Some (Fin r)) = (r \<le> 0 \<or> r \<in> \<int>) \<and>
   checkOrderInput cat (Some (ord\<lparr>amount := a\<rparr>)) = Inr None"
  by (simp add: amount_invalid_Fin checkOrderInput_false)
     (simp add: amount_invalid_def isFloat_def)

text \<open>
  The valid order, with amount 100, has the amount among its collected fields; with
  amount 10.5 it has none; with 10.5 and with -5 it passes \<open>checkOrderInput\<close>.
\<close>

theorem amount_check_flags_whole_numbers_witness:
  "amount_invalid (Some (Fin 100)) \<and>
   \<not> amount_invalid (Some (Fin 10.5)) \<and>
   orderInput_errors key_catalog valid_order = [''amount''] \<and>
   orderInput_errors key_catalog (valid_order\<lparr>amount := Some (Fin 10.5)\<rparr>) = [] \<and>
   checkOrderInput key_catalog (Some (valid_order\<lparr>amount := Some (Fin 10.5)\<rparr>)) = Inr None \<and>
   checkOrderInput key_catalog (Some (valid_order\<lparr>amount := Some (Fin (- 5))\<rparr>)) = Inr None"
  using amount_check_flags_whole_numbers
      [where r = "10.5" and cat = key_catalog and ord = valid_order and a = "Some (Fin 10.5)"]
    amount_check_flags_whole_numbers
      [where r = "10.5" and cat = key_catalog and ord = valid_order and a = "Some (Fin (- 5))"]
  by (simp add: orderInput_errors_def valid_order_def key_catalog_def)

text \<open>
  Claim C5: for a non-empty string token, \<open>getStoredCardDetails\<close> on status 200 with
  a body that contains \<open>paymentMethod\<close> succeeds with that sub-object; without it, it
  fails with \<open>apierror\<close>; an empty or non-string token fails with \<open>ip\<close> before any
  request.

  The code never does the first: as in \<open>createOrder\<close>, the options carry
  \<open>expectedResult\<close>, the body is replaced by \<open>true\<close>, and every answer with status 200
  ends in \<open>apierror\<close>. No input makes \<open>getStoredCardDetails\<close> call back with a
  payload.
\<close>

theorem getStoredCardDetails_200_is_apierror:
  assumes "\<not> disableSsl this \<or> index0 (serviceKey this) = JStr ''T''"
    and "s \<noteq> []"
    and "rp = net (build_request this (card_options s))"
    and "\<not> truthy (err rp)"
    and "status (response rp) = JNum (Fin 200)"
  shows "getStoredCardDetails net cat this (JStr s) =
           ([build_request this (card_options s)], Failed (onError1 cat ''apierror'')) \<and>
         snd (getStoredCardDetails net cat this token') \<noteq> Succeeded v"
proof -
  have "callback cat (card_options s) rp = Succeeded (JBool True)"
    using assms(4,5) by (intro callback_unexpected_200) (simp_all add: card_options_def)
  then have "getStoredCardDetails net cat this (JStr s) =
           ([build_request this (card_options s)], Failed (onError1 cat ''apierror''))"
    using assms(1,2,3)
    by (simp add: getStoredCardDetails_def sendRequest_passes require_prop_true)
  then show ?thesis
    using getStoredCardDetails_never_succeeds by blast
qed

text \<open>
  The token \<open>tok_1\<close>, answered with status 200 and the body
  \<open>{paymentMethod: {id: "abc"}}\<close>.
\<close>

theorem getStoredCardDetails_200_is_apierror_witness:
  "get_prop (JObj [(''paymentMethod'', JObj [(''id'', JStr ''abc'')])]) ''paymentMethod'' =
     JObj [(''id'', JStr ''abc'')] \<and>
   getStoredCardDetails
       (answer (JNum (Fin 200)) (JObj [(''paymentMethod'', JObj [(''id'', JStr ''abc'')])]))
       key_catalog test_client (JStr ''tok_1'') =
     ([\<lparr>url = ''https://api.worldpay.com/v1/tokens/tok_1'', http_method = JStr ''GET'',
        json = JBool True, timeout = JNum (Fin 10), Authorization = JStr ''T_test_key'',
        strictSSL = True\<rparr>],
      Failed \<lparr>message = ''apierrorundefined'', code = JUndefined,
        httpStatusCode = JUndefined, description = JUndefined, customCode = JUndefined\<rparr>)"
  using getStoredCardDetails_200_is_apierror
    [of test_client "''tok_1''"
        "answer (JNum (Fin 200)) (JObj [(''paymentMethod'', JObj [(''id'', JStr ''abc'')])])
           (build_request test_client (card_options ''tok_1''))"
        "answer (JNum (Fin 200)) (JObj [(''paymentMethod'', JObj [(''id'', JStr ''abc'')])])"
        key_catalog]
  by (simp add: test_client_def answer_def response_with_def onError_def key_catalog_def
      build_request_def card_options_def js_or_def)






text \<open>
  Claim C8: the constructor throws the error \<open>key\<close> for the empty string, \<open>null\<close>,
  \<open>undefined\<close> and every other falsy credential, and creates no client; for a non-empty
  credential it yields a client whose timeout is the given value, or 10 when that is
  falsy.
\<close>

theorem Worldpay_credential:
  "Worldpay cat (JStr '''') t = Inl (onError1 cat ''key'') \<and>
   Worldpay cat JNull t = Inl (onError1 cat ''key'') \<and>
   Worldpay cat JUndefined t = Inl (onError1 cat ''key'') \<and>
   (\<not> truthy k0 \<longrightarrow> Worldpay cat k0 t = Inl (onError1 cat ''key'')) \<and>
   (truthy k \<longrightarrow>
      Worldpay cat k t =
        Inr \<lparr>serviceKey = k, timeout = (if truthy t then t else JNum (Fin 10)),
             disableSsl = False, endpoint = ''https://api.worldpay.com/v1/''\<rparr>) \<and>
   (s \<noteq> [] \<longrightarrow>
      Worldpay cat (JStr s) t =
        Inr \<lparr>serviceKey = JStr s, timeout = (if truthy t then t else JNum (Fin 10)),
             disableSsl = False, endpoint = ''https://api.worldpay.com/v1/''\<rparr>)"
  by (simp add: Worldpay_def js_or_def)

text \<open>
  The credential \<open>false\<close>; a test credential with timeout 30 and with none.
\<close>

theorem Worldpay_credential_witness:
  "Worldpay key_catalog (JBool False) (JNum (Fin 30)) =
     Inl \<lparr>message = ''keyundefined'', code = JUndefined, httpStatusCode = JUndefined,
       description = JUndefined, customCode = JUndefined\<rparr> \<and>
   Worldpay key_catalog (JStr ''T_test_key'') (JNum (Fin 30)) =
     Inr \<lparr>serviceKey = JStr ''T_test_key'', timeout = JNum (Fin 30), disableSsl = False,
          endpoint = ''https://api.worldpay.com/v1/''\<rparr> \<and>
   Worldpay key_catalog (JStr ''T_test_key'') JUndefined = Inr test_client"
  using Worldpay_credential [of key_catalog "JNum (Fin 30)" "JBool False" "JStr ''T_test_key''" "''T_test_key''"]
    Worldpay_credential [of key_catalog JUndefined "JBool False" "JStr ''T_test_key''" "''T_test_key''"]
  by (simp add: onError_def key_catalog_def test_client_def)

text \<open>
  Claim C9: the handler of \<open>processWebhook\<close> rejects a request whose method is not
  \<open>POST\<close> with the error \<open>notificationPost\<close>, rejects a \<open>POST\<close> whose body is falsy
  with \<open>notificationUnknown\<close>, and passes the body of any other \<open>POST\<close> to the callback
  unchanged. The callback is the second parameter of \<open>processWebhook\<close>; the first is
  not read.
\<close>

theorem processWebhook_contract:
  "(inbound.http_method req1 \<noteq> JStr ''POST'' \<longrightarrow>
      processWebhook cat tok req1 = Failed (onError1 cat ''notificationPost'')) \<and>
   (inbound.http_method req2 = JStr ''POST'' \<and> \<not> truthy (inbound.body req2) \<longrightarrow>
      processWebhook cat tok req2 = Failed (onError1 cat ''notificationUnknown'')) \<and>
   (inbound.http_method req3 = JStr ''POST'' \<and> truthy (inbound.body req3) \<longrightarrow>
      processWebhook cat tok req3 = Succeeded (inbound.body req3))"
  by (simp add: processWebhook_def)

text \<open>
  A \<open>GET\<close>, a \<open>POST\<close> with an empty body, a \<open>POST\<close> with the body \<open>{foo: 1}\<close>.
\<close>

theorem processWebhook_contract_witness:
  "processWebhook key_catalog JUndefined
      \<lparr>http_method = JStr ''GET'', body = JObj [(''foo'', JNum (Fin 1))]\<rparr> =
     Failed \<lparr>message = ''notificationPostundefined'', code = JUndefined,
       httpStatusCode = JUndefined, description = JUndefined, customCode = JUndefined\<rparr> \<and>
   processWebhook key_catalog JUndefined \<lparr>http_method = JStr ''POST'', body = JStr ''''\<rparr> =
     Failed \<lparr>message = ''notificationUnknownundefined'', code = JUndefined,
       httpStatusCode = JUndefined, description = JUndefined, customCode = JUndefined\<rparr> \<and>
   processWebhook key_catalog JUndefined
      \<lparr>http_method = JStr ''POST'', body = JObj [(''foo'', JNum (Fin 1))]\<rparr> =
     Succeeded (JObj [(''foo'', JNum (Fin 1))])"
  using processWebhook_contract
    [of "\<lparr>http_method = JStr ''GET'', body = JObj [(''foo'', JNum (Fin 1))]\<rparr>"
        key_catalog JUndefined
        "\<lparr>http_method = JStr ''POST'', body = JStr ''''\<rparr>"
        "\<lparr>http_method = JStr ''POST'', body = JObj [(''foo'', JNum (Fin 1))]\<rparr>"]
  by (simp add: onError_def key_catalog_def)

text \<open>
  Claim C10: an error built without a message has the catalog's template followed by
  the text \<open>undefined\<close> as its message. So have the error the constructor throws, the
  error of the security gate, and the \<open>apierror\<close> for a payload without the required
  property.
\<close>

theorem onError_without_message:
  "message (onError cat error Omitted c h d cc) = errors cat error @ ''undefined'' \<and>
   (\<not> truthy k \<longrightarrow>
      (\<exists>e. Worldpay cat k t = Inl e \<and> message e = errors cat ''key'' @ ''undefined'')) \<and>
   (disableSsl this \<and> \<not> nullish (serviceKey this) \<and> index0 (serviceKey this) \<noteq> JStr ''T'' \<longrightarrow>
      (\<exists>e. sendRequest net cat this opts = ([], Failed e) \<and>
           message e = errors cat ''ssl'' @ ''undefined'')) \<and>
   (\<not> nullish v \<and> \<not> truthy (get_prop v key) \<longrightarrow>
      (\<exists>e. require_prop cat key whole (Succeeded v) = Failed e \<and>
           message e = errors cat ''apierror'' @ ''undefined''))"
  by (simp add: Worldpay_def sendRequest_refused require_prop_def) (simp add: onError_def)

theorem onError_without_message_witness:
  "message (onError1 key_catalog ''key'') = ''keyundefined'' \<and>
   Worldpay key_catalog (JStr '''') JUndefined =
     Inl \<lparr>message = ''keyundefined'', code = JUndefined, httpStatusCode = JUndefined,
       description = JUndefined, customCode = JUndefined\<rparr> \<and>
   sendRequest (answer (JNum (Fin 200)) (JObj [])) key_catalog
       (live_client\<lparr>disableSsl := True\<rparr>) (refund_options ''abc'') =
     ([], Failed \<lparr>message = ''sslundefined'', code = JUndefined, httpStatusCode = JUndefined,
        description = JUndefined, customCode = JUndefined\<rparr>) \<and>
   require_prop key_catalog ''orderCode'' True (Succeeded (JBool True)) =
     Failed \<lparr>message = ''apierrorundefined'', code = JUndefined, httpStatusCode = JUndefined,
       description = JUndefined, customCode = JUndefined\<rparr>"
  using onError_without_message
    [of key_catalog "''key''" JUndefined JUndefined JUndefined JUndefined "JStr ''''" JUndefined
        "live_client\<lparr>disableSsl := True\<rparr>" "answer (JNum (Fin 200)) (JObj [])"
        "refund_options ''abc''" "JBool True" "''orderCode''" True]
  by (simp add: Worldpay_def sendRequest_def require_prop_def live_client_def onError_def
      key_catalog_def)

end
